theory Spec2Isabelle
  imports Complex_Main
begin

section \<open>Analytics service: event intake and aggregation\<close>

text \<open>
  A shallow embedding of \<^verbatim>\<open>src/processor.js\<close> (\<^verbatim>\<open>processEvent\<close>), of the
  repository module it calls (\<^verbatim>\<open>insertEvent\<close>, \<^verbatim>\<open>upsertDailyMetrics\<close>,
  \<^verbatim>\<open>upsertHourlyMetrics\<close>, \<^verbatim>\<open>upsertProductMetrics\<close>), of the four tables of
  \<^verbatim>\<open>migrations/001_create_analytics_tables.sql\<close> and of the Kafka message handler
  (\<^verbatim>\<open>eachMessage\<close> inside \<^verbatim>\<open>startConsumer\<close>).

  Conventions of the embedding.
  \<^item> The PostgreSQL database is an explicit state, a record of the four tables. Every
    repository function issues exactly one \<^verbatim>\<open>getPool().query\<close>; the pool runs each
    statement on its own (autocommit), so a statement that is rejected changes nothing
    and every statement that succeeded stays.
  \<^item> A rejected query is an error value. Whether the n-th query issued by one call of
    \<^verbatim>\<open>processEvent\<close> is rejected is an input of the model (a fault schedule
    \<open>nat \<Rightarrow> bool\<close>): the storage engine is an external collaborator.
  \<^item> JavaScript numbers that carry money are exact rationals and counters are integers;
    IEEE-754 rounding and the scale of the \<^verbatim>\<open>NUMERIC(12,2)\<close> columns are outside the
    embedding.
  \<^item> \<^verbatim>\<open>new Date()\<close> is an input (\<open>now\<close>); loggers are not modelled.
\<close>

subsection \<open>Events\<close>

text \<open>One line item of an order payload; \<^verbatim>\<open>quantity\<close> and \<^verbatim>\<open>price\<close> may be missing.\<close>

record item =
  productId :: int
  quantity :: "int option"
  price :: "rat option"

text \<open>
  The \<^verbatim>\<open>data\<close> object of an event, as far as \<^verbatim>\<open>processEvent\<close> reads it.
  \<open>items = None\<close> stands for a missing \<^verbatim>\<open>items\<close> field or one that is not an array.
\<close>

record payload =
  totalAmount :: "rat option"
  items :: "item list option"

record event =
  etype :: string
  orderId :: int
  userId :: "int option"
  data :: "payload option"

text \<open>
  \<^verbatim>\<open>EVENT_TYPES\<close> of the shared schema package, with the values listed in
  \<^verbatim>\<open>INTERFACES.md\<close> and used by the tests.
\<close>

definition ORDER_CREATED :: string where "ORDER_CREATED = ''order.created''"
definition ORDER_CONFIRMED :: string where "ORDER_CONFIRMED = ''order.confirmed''"
definition ORDER_CANCELLED :: string where "ORDER_CANCELLED = ''order.cancelled''"
definition ORDER_SHIPPED :: string where "ORDER_SHIPPED = ''order.shipped''"
definition PAYMENT_AUTHORIZED :: string where "PAYMENT_AUTHORIZED = ''payment.authorized''"
definition PAYMENT_FAILED :: string where "PAYMENT_FAILED = ''payment.failed''"

definition EVENT_TYPES :: "string list" where
  "EVENT_TYPES = [ORDER_CREATED, ORDER_CONFIRMED, ORDER_CANCELLED, ORDER_SHIPPED,
     PAYMENT_AUTHORIZED, PAYMENT_FAILED]"

subsection \<open>The processing instant\<close>

text \<open>
  A JavaScript \<^verbatim>\<open>Date\<close>: milliseconds since the epoch, together with the offset of the
  host's local time zone at that instant (local = UTC + offset).
\<close>

record jsdate =
  epoch_ms :: int
  tz_offset_ms :: int

text \<open>\<^verbatim>\<open>now.toISOString().split('T')[0]\<close>: the UTC calendar day, as a day number.\<close>

definition isoDate :: "jsdate \<Rightarrow> int" where
  "isoDate now = epoch_ms now div 86400000"

text \<open>
  \<^verbatim>\<open>new Date(now.getFullYear(), now.getMonth(), now.getDate(), now.getHours())\<close>:
  the instant at which the current local hour began.
\<close>

definition hourOf :: "jsdate \<Rightarrow> int" where
  "hourOf now = epoch_ms now - (epoch_ms now + tz_offset_ms now) mod 3600000"

subsection \<open>The tables\<close>

record events_log_row =
  row_id :: nat
  event_type :: string
  order_id :: int
  user_id :: "int option"
  correlation_id :: "string option"
  row_data :: "payload option"

record daily_row =
  orders_created :: int
  orders_confirmed :: int
  orders_cancelled :: int
  orders_shipped :: int
  revenue_confirmed :: rat
  revenue_cancelled :: rat
  payment_success_count :: int
  payment_failure_count :: int

record hourly_row =
  order_count :: int
  revenue :: rat

record product_row =
  total_quantity_sold :: int
  total_revenue :: rat
  product_order_count :: int
  last_ordered_at :: "int option"

text \<open>
  The database: the ledger in insertion order with its \<^verbatim>\<open>SERIAL\<close> counter, and the
  three aggregate tables, each a map from its unique key to the row.
\<close>

record db =
  events_log :: "events_log_row list"
  events_log_id_seq :: nat
  daily_metrics :: "int \<rightharpoonup> daily_row"
  hourly_order_counts :: "int \<rightharpoonup> hourly_row"
  product_metrics :: "int \<rightharpoonup> product_row"

datatype error = StorageError

subsection \<open>Repository\<close>

text \<open>The unique index \<^verbatim>\<open>idx_events_log_dedup\<close> on \<^verbatim>\<open>(event_type, order_id)\<close>.\<close>

definition conflicts :: "db \<Rightarrow> string \<Rightarrow> int \<Rightarrow> bool" where
  "conflicts d ty oid = list_ex (\<lambda>r. event_type r = ty \<and> order_id r = oid) (events_log d)"

text \<open>
  \<^verbatim>\<open>INSERT INTO events_log ... ON CONFLICT (event_type, order_id) DO NOTHING RETURNING id\<close>.
  The result is the new row's id, or \<open>None\<close> (JavaScript \<^verbatim>\<open>null\<close>) on a duplicate.
  \<open>rejected\<close> tells whether \<^verbatim>\<open>pool.query\<close> rejects.
\<close>

definition insertEvent ::
  "bool \<Rightarrow> string \<Rightarrow> int \<Rightarrow> int option \<Rightarrow> string option \<Rightarrow> payload option \<Rightarrow> db
    \<Rightarrow> error + (nat option \<times> db)" where
  "insertEvent rejected eventType oid uid correlationId dat d =
     (if rejected then Inl StorageError
      else let newid = Suc (events_log_id_seq d) in
        if conflicts d eventType oid
        then Inr (None, d\<lparr>events_log_id_seq := newid\<rparr>)
        else Inr (Some newid,
          d\<lparr>events_log := events_log d @
               [\<lparr>row_id = newid, event_type = eventType, order_id = oid, user_id = uid,
                 correlation_id = correlationId, row_data = dat\<rparr>],
            events_log_id_seq := newid\<rparr>))"

text \<open>
  The \<^verbatim>\<open>increments\<close> object of \<^verbatim>\<open>upsertDailyMetrics\<close>: every field may be left out
  and then defaults to 0 in the destructuring.
\<close>

record daily_increments =
  ordersCreated :: "int option"
  ordersConfirmed :: "int option"
  ordersCancelled :: "int option"
  ordersShipped :: "int option"
  revenueConfirmed :: "rat option"
  revenueCancelled :: "rat option"
  paymentSuccessCount :: "int option"
  paymentFailureCount :: "int option"

definition no_increments :: daily_increments where
  "no_increments = \<lparr>ordersCreated = None, ordersConfirmed = None, ordersCancelled = None,
     ordersShipped = None, revenueConfirmed = None, revenueCancelled = None,
     paymentSuccessCount = None, paymentFailureCount = None\<rparr>"

text \<open>A destructuring default \<^verbatim>\<open>field = 0\<close>.\<close>

definition dflt :: "'a::zero option \<Rightarrow> 'a" where
  "dflt v = (case v of None \<Rightarrow> 0 | Some x \<Rightarrow> x)"

text \<open>The row that the \<^verbatim>\<open>VALUES\<close> clause of the daily upsert proposes.\<close>

definition daily_values :: "daily_increments \<Rightarrow> daily_row" where
  "daily_values inc =
     \<lparr>orders_created = dflt (ordersCreated inc),
      orders_confirmed = dflt (ordersConfirmed inc),
      orders_cancelled = dflt (ordersCancelled inc),
      orders_shipped = dflt (ordersShipped inc),
      revenue_confirmed = dflt (revenueConfirmed inc),
      revenue_cancelled = dflt (revenueCancelled inc),
      payment_success_count = dflt (paymentSuccessCount inc),
      payment_failure_count = dflt (paymentFailureCount inc)\<rparr>"

text \<open>The \<^verbatim>\<open>DO UPDATE SET\<close> clause of the daily upsert: column by column, old + EXCLUDED.\<close>

definition daily_merge :: "daily_row \<Rightarrow> daily_row \<Rightarrow> daily_row" where
  "daily_merge old excluded =
     \<lparr>orders_created = orders_created old + orders_created excluded,
      orders_confirmed = orders_confirmed old + orders_confirmed excluded,
      orders_cancelled = orders_cancelled old + orders_cancelled excluded,
      orders_shipped = orders_shipped old + orders_shipped excluded,
      revenue_confirmed = revenue_confirmed old + revenue_confirmed excluded,
      revenue_cancelled = revenue_cancelled old + revenue_cancelled excluded,
      payment_success_count = payment_success_count old + payment_success_count excluded,
      payment_failure_count = payment_failure_count old + payment_failure_count excluded\<rparr>"

definition upsertDailyMetrics :: "bool \<Rightarrow> int \<Rightarrow> daily_increments \<Rightarrow> db \<Rightarrow> error + db" where
  "upsertDailyMetrics rejected date increments d =
     (if rejected then Inl StorageError
      else Inr (d\<lparr>daily_metrics := (daily_metrics d)(date \<mapsto>
        (case daily_metrics d date of
           None \<Rightarrow> daily_values increments
         | Some old \<Rightarrow> daily_merge old (daily_values increments)))\<rparr>))"

definition upsertHourlyMetrics :: "bool \<Rightarrow> int \<Rightarrow> int \<Rightarrow> rat \<Rightarrow> db \<Rightarrow> error + db" where
  "upsertHourlyMetrics rejected hourBucket orderCountIncrement revenueIncrement d =
     (if rejected then Inl StorageError
      else Inr (d\<lparr>hourly_order_counts := (hourly_order_counts d)(hourBucket \<mapsto>
        (case hourly_order_counts d hourBucket of
           None \<Rightarrow> \<lparr>order_count = orderCountIncrement, revenue = revenueIncrement\<rparr>
         | Some old \<Rightarrow> \<lparr>order_count = order_count old + orderCountIncrement,
                        revenue = revenue old + revenueIncrement\<rparr>))\<rparr>))"

definition upsertProductMetrics :: "bool \<Rightarrow> int \<Rightarrow> int \<Rightarrow> rat \<Rightarrow> jsdate \<Rightarrow> db \<Rightarrow> error + db" where
  "upsertProductMetrics rejected pid quantitySold revenueSold now d =
     (if rejected then Inl StorageError
      else Inr (d\<lparr>product_metrics := (product_metrics d)(pid \<mapsto>
        (case product_metrics d pid of
           None \<Rightarrow> \<lparr>total_quantity_sold = quantitySold, total_revenue = revenueSold,
                     product_order_count = 1, last_ordered_at = Some (epoch_ms now)\<rparr>
         | Some old \<Rightarrow> \<lparr>total_quantity_sold = total_quantity_sold old + quantitySold,
                        total_revenue = total_revenue old + revenueSold,
                        product_order_count = product_order_count old + 1,
                        last_ordered_at = Some (epoch_ms now)\<rparr>))\<rparr>))"

subsection \<open>The aggregation engine\<close>

text \<open>
  JavaScript \<^verbatim>\<open>x || 0\<close> on a number that may be missing: a missing value and the
  falsy number 0 both give 0.
\<close>

definition orZero :: "'a::zero option \<Rightarrow> 'a" where
  "orZero v = (case v of None \<Rightarrow> 0 | Some x \<Rightarrow> (if x = 0 then 0 else x))"

text \<open>\<^verbatim>\<open>data?.totalAmount || 0\<close>.\<close>

definition amountOf :: "payload option \<Rightarrow> rat" where
  "amountOf dat = (case dat of None \<Rightarrow> 0 | Some p \<Rightarrow> orZero (totalAmount p))"

text \<open>
  \<^verbatim>\<open>data?.items && Array.isArray(data.items)\<close>: the list to loop over, empty when
  the guard is false.
\<close>

definition itemsOf :: "payload option \<Rightarrow> item list" where
  "itemsOf dat = (case dat of None \<Rightarrow> [] | Some p \<Rightarrow> (case items p of None \<Rightarrow> [] | Some its \<Rightarrow> its))"

text \<open>
  The \<^verbatim>\<open>for (const item of data.items)\<close> loop. \<open>n\<close> is the number of queries the call
  has issued so far. The first rejected query ends the loop with the error; the
  product rows written before it stay written.
\<close>

fun upsertItems :: "(nat \<Rightarrow> bool) \<Rightarrow> nat \<Rightarrow> jsdate \<Rightarrow> item list \<Rightarrow> db \<Rightarrow> (error + unit) \<times> db" where
  "upsertItems flt n now [] d = (Inr (), d)"
| "upsertItems flt n now (it # its) d =
     (let itemRevenue = orZero (price it) * of_int (orZero (quantity it)) in
      case upsertProductMetrics (flt n) (productId it) (orZero (quantity it)) itemRevenue now d of
        Inl err \<Rightarrow> (Inl err, d)
      | Inr d' \<Rightarrow> upsertItems flt (Suc n) now its d')"

text \<open>
  \<^verbatim>\<open>processEvent(event, correlationId)\<close>. The result pairs what the promise settles
  to (\<open>Inl\<close> the rejection, \<open>Inr\<close> the returned boolean) with the database as
  the call leaves it. \<open>flt n\<close> tells whether the n-th query of this call is rejected.
\<close>

definition processEvent ::
  "(nat \<Rightarrow> bool) \<Rightarrow> jsdate \<Rightarrow> event \<Rightarrow> string option \<Rightarrow> db \<Rightarrow> (error + bool) \<times> db" where
  "processEvent flt now ev correlationId d =
     (let today = isoDate now; hourBucket = hourOf now in
      case insertEvent (flt 0) (etype ev) (orderId ev) (userId ev) correlationId (data ev) d of
        Inl err \<Rightarrow> (Inl err, d)
      | Inr (eventId, d1) \<Rightarrow>
         (case eventId of
            None \<Rightarrow> (Inr False, d1)
          | Some _ \<Rightarrow>
             if etype ev = ORDER_CREATED then
               (case upsertDailyMetrics (flt 1) today (no_increments\<lparr>ordersCreated := Some 1\<rparr>) d1 of
                  Inl err \<Rightarrow> (Inl err, d1)
                | Inr d2 \<Rightarrow>
                   (case upsertHourlyMetrics (flt 2) hourBucket 1 0 d2 of
                      Inl err \<Rightarrow> (Inl err, d2)
                    | Inr d3 \<Rightarrow> (Inr True, d3)))
             else if etype ev = ORDER_CONFIRMED then
               (let amount = amountOf (data ev) in
                case upsertDailyMetrics (flt 1) today
                       (no_increments\<lparr>ordersConfirmed := Some 1, revenueConfirmed := Some amount\<rparr>) d1 of
                  Inl err \<Rightarrow> (Inl err, d1)
                | Inr d2 \<Rightarrow>
                   (case upsertHourlyMetrics (flt 2) hourBucket 0 amount d2 of
                      Inl err \<Rightarrow> (Inl err, d2)
                    | Inr d3 \<Rightarrow>
                       (case upsertItems flt 3 now (itemsOf (data ev)) d3 of
                          (Inl err, d4) \<Rightarrow> (Inl err, d4)
                        | (Inr _, d4) \<Rightarrow> (Inr True, d4))))
             else if etype ev = ORDER_CANCELLED then
               (let cancelledAmount = amountOf (data ev) in
                case upsertDailyMetrics (flt 1) today
                       (no_increments\<lparr>ordersCancelled := Some 1, revenueCancelled := Some cancelledAmount\<rparr>) d1 of
                  Inl err \<Rightarrow> (Inl err, d1)
                | Inr d2 \<Rightarrow> (Inr True, d2))
             else if etype ev = ORDER_SHIPPED then
               (case upsertDailyMetrics (flt 1) today (no_increments\<lparr>ordersShipped := Some 1\<rparr>) d1 of
                  Inl err \<Rightarrow> (Inl err, d1)
                | Inr d2 \<Rightarrow> (Inr True, d2))
             else if etype ev = PAYMENT_AUTHORIZED then
               (case upsertDailyMetrics (flt 1) today (no_increments\<lparr>paymentSuccessCount := Some 1\<rparr>) d1 of
                  Inl err \<Rightarrow> (Inl err, d1)
                | Inr d2 \<Rightarrow> (Inr True, d2))
             else if etype ev = PAYMENT_FAILED then
               (case upsertDailyMetrics (flt 1) today (no_increments\<lparr>paymentFailureCount := Some 1\<rparr>) d1 of
                  Inl err \<Rightarrow> (Inl err, d1)
                | Inr d2 \<Rightarrow> (Inr True, d2))
             else (Inr True, d1)))"

subsection \<open>The ingress adapter\<close>

text \<open>
  A Kafka header value is a \<^verbatim>\<open>Buffer\<close> or a string. A message has an optional header
  object and an optional value.
\<close>

datatype header_value = Buf string | Str string

record kafka_message =
  headers :: "(string \<rightharpoonup> header_value) option"
  msg_value :: "string option"

text \<open>JavaScript truthiness of a header lookup: a missing header and the empty string are falsy.\<close>

definition truthy :: "header_value option \<Rightarrow> bool" where
  "truthy h = (case h of None \<Rightarrow> False | Some (Buf b) \<Rightarrow> True | Some (Str s) \<Rightarrow> s \<noteq> [])"

text \<open>
  The first block of \<^verbatim>\<open>eachMessage\<close>: \<^verbatim>\<open>correlationId\<close> starts as \<^verbatim>\<open>null\<close> and is
  set from \<^verbatim>\<open>headers['x-correlation-id'] || headers.correlationId\<close> when that is truthy.
\<close>

definition headerCorrelationId :: "kafka_message \<Rightarrow> string option" where
  "headerCorrelationId message =
     (case headers message of
        None \<Rightarrow> None
      | Some hs \<Rightarrow>
         (let headerValue = (if truthy (hs ''x-correlation-id'') then hs ''x-correlation-id''
                             else hs ''correlationId'')
          in if truthy headerValue
             then (case headerValue of Some (Buf b) \<Rightarrow> Some b | Some (Str s) \<Rightarrow> Some s | None \<Rightarrow> None)
             else None))"

text \<open>
  The parsed JSON of a message: the \<^verbatim>\<open>correlationId\<close> field of the payload, if it has
  one, and the remaining fields.
\<close>

record 'b raw_event =
  payload_correlationId :: "string option"
  body :: 'b

text \<open>
  The rest of \<^verbatim>\<open>eachMessage\<close>, up to the call \<^verbatim>\<open>messageHandler(result.data, correlationId)\<close>.
  The result is the pair of arguments of that call, or \<open>None\<close> when the handler is not
  called (empty value, unparseable JSON, failed validation). \<^verbatim>\<open>JSON.parse\<close> and
  \<^verbatim>\<open>validateEvent\<close> of the schema package are parameters: \<open>parse\<close> gives \<open>None\<close> when
  it throws, \<open>validateEvent\<close> gives \<open>None\<close> when \<^verbatim>\<open>result.success\<close> is false.
\<close>

definition handlerCall ::
  "(string \<Rightarrow> 'b raw_event option) \<Rightarrow> ('b raw_event \<Rightarrow> event option) \<Rightarrow> kafka_message
    \<Rightarrow> (event \<times> string option) option" where
  "handlerCall parse validateEvent message =
     (let correlationId = headerCorrelationId message in
      case msg_value message of
        None \<Rightarrow> None
      | Some rawValue \<Rightarrow>
         if rawValue = [] then None
         else (case parse rawValue of
                 None \<Rightarrow> None
               | Some ev \<Rightarrow>
                  (let ev' = (if correlationId \<noteq> None \<and> correlationId \<noteq> Some []
                              then ev\<lparr>payload_correlationId := correlationId\<rparr> else ev)
                   in case validateEvent ev' of
                        None \<Rightarrow> None
                      | Some validated \<Rightarrow> Some (validated, correlationId))))"

text \<open>
  \<^verbatim>\<open>eachMessage\<close> with \<^verbatim>\<open>processEvent\<close> as the message handler, as \<^verbatim>\<open>index.js\<close>
  starts the consumer. The \<^verbatim>\<open>catch\<close> block logs a rejection and does not rethrow.
\<close>

definition eachMessage ::
  "(string \<Rightarrow> 'b raw_event option) \<Rightarrow> ('b raw_event \<Rightarrow> event option) \<Rightarrow> (nat \<Rightarrow> bool) \<Rightarrow> jsdate
    \<Rightarrow> kafka_message \<Rightarrow> db \<Rightarrow> db" where
  "eachMessage parse validateEvent flt now message d =
     (case handlerCall parse validateEvent message of
        None \<Rightarrow> d
      | Some (ev, correlationId) \<Rightarrow> snd (processEvent flt now ev correlationId d))"

subsection \<open>Observations used to state the properties\<close>

text \<open>The aggregate store: the three aggregate tables of a database state.\<close>

definition aggregates ::
  "db \<Rightarrow> (int \<rightharpoonup> daily_row) \<times> (int \<rightharpoonup> hourly_row) \<times> (int \<rightharpoonup> product_row)" where
  "aggregates d = (daily_metrics d, hourly_order_counts d, product_metrics d)"

text \<open>
  Reading an aggregate row, with a row that does not exist yet read as all zero
  (and no \<^verbatim>\<open>last_ordered_at\<close>).
\<close>

definition dailyAt :: "db \<Rightarrow> int \<Rightarrow> daily_row" where
  "dailyAt d date = (case daily_metrics d date of Some r \<Rightarrow> r | None \<Rightarrow>
     \<lparr>orders_created = 0, orders_confirmed = 0, orders_cancelled = 0, orders_shipped = 0,
      revenue_confirmed = 0, revenue_cancelled = 0, payment_success_count = 0,
      payment_failure_count = 0\<rparr>)"

definition hourlyAt :: "db \<Rightarrow> int \<Rightarrow> hourly_row" where
  "hourlyAt d hourBucket = (case hourly_order_counts d hourBucket of Some r \<Rightarrow> r | None \<Rightarrow>
     \<lparr>order_count = 0, revenue = 0\<rparr>)"

definition productAt :: "db \<Rightarrow> int \<Rightarrow> product_row" where
  "productAt d pid = (case product_metrics d pid of Some r \<Rightarrow> r | None \<Rightarrow>
     \<lparr>total_quantity_sold = 0, total_revenue = 0, product_order_count = 0, last_ordered_at = None\<rparr>)"

text \<open>The line items of a list that name one product.\<close>

definition itemsFor :: "int \<Rightarrow> item list \<Rightarrow> item list" where
  "itemsFor pid its = filter (\<lambda>it. productId it = pid) its"

text \<open>The database after \<^verbatim>\<open>insertEvent\<close> has added the row of an event.\<close>

definition ledgerInsert :: "event \<Rightarrow> string option \<Rightarrow> db \<Rightarrow> db" where
  "ledgerInsert ev cid d =
     d\<lparr>events_log := events_log d @
          [\<lparr>row_id = Suc (events_log_id_seq d), event_type = etype ev, order_id = orderId ev,
            user_id = userId ev, correlation_id = cid, row_data = data ev\<rparr>],
       events_log_id_seq := Suc (events_log_id_seq d)\<rparr>"

text \<open>The database right after the migration: four empty tables.\<close>

definition empty_db :: db where
  "empty_db = \<lparr>events_log = [], events_log_id_seq = 0, daily_metrics = Map.empty,
     hourly_order_counts = Map.empty, product_metrics = Map.empty\<rparr>"

text \<open>The order-confirmed event of the test suite, and an event of an unknown type.\<close>

definition scenario_confirmed :: event where
  "scenario_confirmed = \<lparr>etype = ''order.confirmed'', orderId = 2, userId = Some 10,
     data = Some \<lparr>totalAmount = Some (7498 / 100),
       items = Some [\<lparr>productId = 1, quantity = Some 2, price = Some (2999 / 100)\<rparr>,
                     \<lparr>productId = 3, quantity = Some 1, price = Some 15\<rparr>]\<rparr>\<rparr>"

definition scenario_promo :: event where
  "scenario_promo = \<lparr>etype = ''promo.applied'', orderId = 7, userId = None, data = None\<rparr>"

definition epoch :: jsdate where
  "epoch = \<lparr>epoch_ms = 0, tz_offset_ms = 0\<rparr>"

text \<open>
  What the \<^verbatim>\<open>switch\<close> of \<^verbatim>\<open>processEvent\<close> passes on, by event type: the increments
  object of its call of \<^verbatim>\<open>upsertDailyMetrics\<close> and the two increments of its call of
  \<^verbatim>\<open>upsertHourlyMetrics\<close> (\<open>None\<close> when the branch makes no such call), and the line
  items it loops over.
\<close>

definition dailyIncrements :: "event \<Rightarrow> daily_increments option" where
  "dailyIncrements ev =
     (if etype ev = ORDER_CREATED then Some (no_increments\<lparr>ordersCreated := Some 1\<rparr>)
      else if etype ev = ORDER_CONFIRMED then
        Some (no_increments\<lparr>ordersConfirmed := Some 1, revenueConfirmed := Some (amountOf (data ev))\<rparr>)
      else if etype ev = ORDER_CANCELLED then
        Some (no_increments\<lparr>ordersCancelled := Some 1, revenueCancelled := Some (amountOf (data ev))\<rparr>)
      else if etype ev = ORDER_SHIPPED then Some (no_increments\<lparr>ordersShipped := Some 1\<rparr>)
      else if etype ev = PAYMENT_AUTHORIZED then Some (no_increments\<lparr>paymentSuccessCount := Some 1\<rparr>)
      else if etype ev = PAYMENT_FAILED then Some (no_increments\<lparr>paymentFailureCount := Some 1\<rparr>)
      else None)"

definition hourlyIncrements :: "event \<Rightarrow> (int \<times> rat) option" where
  "hourlyIncrements ev =
     (if etype ev = ORDER_CREATED then Some (1, 0)
      else if etype ev = ORDER_CONFIRMED then Some (0, amountOf (data ev))
      else None)"

definition productItems :: "event \<Rightarrow> item list" where
  "productItems ev = (if etype ev = ORDER_CONFIRMED then itemsOf (data ev) else [])"

text \<open>The daily and the hourly table after those calls, when they are not rejected.\<close>

definition dailyStep :: "jsdate \<Rightarrow> event \<Rightarrow> db \<Rightarrow> db" where
  "dailyStep now ev d =
     (case dailyIncrements ev of
        None \<Rightarrow> d
      | Some inc \<Rightarrow> d\<lparr>daily_metrics := (daily_metrics d)(isoDate now \<mapsto>
          daily_merge (dailyAt d (isoDate now)) (daily_values inc))\<rparr>)"

definition hourlyStep :: "jsdate \<Rightarrow> event \<Rightarrow> db \<Rightarrow> db" where
  "hourlyStep now ev d =
     (case hourlyIncrements ev of
        None \<Rightarrow> d
      | Some (c, r) \<Rightarrow> d\<lparr>hourly_order_counts := (hourly_order_counts d)(hourOf now \<mapsto>
          \<lparr>order_count = order_count (hourlyAt d (hourOf now)) + c,
           revenue = revenue (hourlyAt d (hourOf now)) + r\<rparr>)\<rparr>)"

text \<open>The order-created event of the test suite.\<close>

definition scenario_created :: event where
  "scenario_created = \<lparr>etype = ''order.created'', orderId = 1, userId = Some 10,
     data = Some \<lparr>totalAmount = Some (5998 / 100),
       items = Some [\<lparr>productId = 1, quantity = Some 2, price = Some (2999 / 100)\<rparr>]\<rparr>\<rparr>"



text \<open>A product row with its \<^verbatim>\<open>last_ordered_at\<close> column blanked, to compare the counters alone.\<close>

definition withoutLastOrdered :: "product_row option \<Rightarrow> product_row option" where
  "withoutLastOrdered r = map_option (\<lambda>row. row\<lparr>last_ordered_at := None\<rparr>) r"

text \<open>The instant one millisecond after \<open>epoch\<close>.\<close>

definition one_ms_later :: jsdate where
  "one_ms_later = \<lparr>epoch_ms = 1, tz_offset_ms = 0\<rparr>"

section \<open>Properties\<close>

lemmas event_type_defs = ORDER_CREATED_def ORDER_CONFIRMED_def ORDER_CANCELLED_def
  ORDER_SHIPPED_def PAYMENT_AUTHORIZED_def PAYMENT_FAILED_def

subsection \<open>The repository calls when the query is not rejected\<close>

lemma insertEvent_fresh:
  "\<not> conflicts d ty oid \<Longrightarrow>
   insertEvent False ty oid uid c dat d =
     Inr (Some (Suc (events_log_id_seq d)),
       d\<lparr>events_log := events_log d @
            [\<lparr>row_id = Suc (events_log_id_seq d), event_type = ty, order_id = oid, user_id = uid,
              correlation_id = c, row_data = dat\<rparr>],
         events_log_id_seq := Suc (events_log_id_seq d)\<rparr>)"
  by (simp add: insertEvent_def)

lemma insertEvent_duplicate:
  "conflicts d ty oid \<Longrightarrow>
   insertEvent False ty oid uid c dat d = Inr (None, d\<lparr>events_log_id_seq := Suc (events_log_id_seq d)\<rparr>)"
  by (simp add: insertEvent_def)

lemma insertEvent_rejected: "insertEvent True ty oid uid c dat d = Inl StorageError"
  by (simp add: insertEvent_def)

lemma upsertDailyMetrics_ok:
  "upsertDailyMetrics False date inc d =
     Inr (d\<lparr>daily_metrics := (daily_metrics d)(date \<mapsto> daily_merge (dailyAt d date) (daily_values inc))\<rparr>)"
  by (simp add: upsertDailyMetrics_def dailyAt_def daily_merge_def daily_values_def split: option.split)

lemma upsertHourlyMetrics_ok:
  "upsertHourlyMetrics False h c r d =
     Inr (d\<lparr>hourly_order_counts := (hourly_order_counts d)(h \<mapsto>
       \<lparr>order_count = order_count (hourlyAt d h) + c, revenue = revenue (hourlyAt d h) + r\<rparr>)\<rparr>)"
  by (simp add: upsertHourlyMetrics_def hourlyAt_def split: option.split)

lemma upsertProductMetrics_ok:
  "upsertProductMetrics False pid q r now d =
     Inr (d\<lparr>product_metrics := (product_metrics d)(pid \<mapsto>
       \<lparr>total_quantity_sold = total_quantity_sold (productAt d pid) + q,
        total_revenue = total_revenue (productAt d pid) + r,
        product_order_count = product_order_count (productAt d pid) + 1,
        last_ordered_at = Some (epoch_ms now)\<rparr>)\<rparr>)"
  by (simp add: upsertProductMetrics_def productAt_def split: option.split)

lemma upsertItems_ok_fst:
  "(\<forall>k. \<not> flt k) \<Longrightarrow> fst (upsertItems flt n now its d) = Inr ()"
  by (induction its arbitrary: n d) (simp_all add: upsertProductMetrics_ok)

lemma upsertItems_frame:
  "(\<forall>k. \<not> flt k) \<Longrightarrow>
   events_log (snd (upsertItems flt n now its d)) = events_log d \<and>
   events_log_id_seq (snd (upsertItems flt n now its d)) = events_log_id_seq d \<and>
   daily_metrics (snd (upsertItems flt n now its d)) = daily_metrics d \<and>
   hourly_order_counts (snd (upsertItems flt n now its d)) = hourly_order_counts d"
  by (induction its arbitrary: n d) (simp_all add: upsertProductMetrics_ok)

lemma upsertItems_product:
  "(\<forall>k. \<not> flt k) \<Longrightarrow>
   product_metrics (snd (upsertItems flt n now its d)) pid =
     (if itemsFor pid its = [] then product_metrics d pid
      else Some \<lparr>total_quantity_sold = total_quantity_sold (productAt d pid)
                    + (\<Sum>it\<leftarrow>itemsFor pid its. orZero (quantity it)),
                 total_revenue = total_revenue (productAt d pid)
                    + (\<Sum>it\<leftarrow>itemsFor pid its. orZero (price it) * of_int (orZero (quantity it))),
                 product_order_count = product_order_count (productAt d pid) + int (length (itemsFor pid its)),
                 last_ordered_at = Some (epoch_ms now)\<rparr>)"
proof (induction its arbitrary: n d)
  case Nil
  then show ?case by (simp add: itemsFor_def)
next
  case (Cons it its)
  let ?d1 = "d\<lparr>product_metrics := (product_metrics d)(productId it \<mapsto>
       \<lparr>total_quantity_sold = total_quantity_sold (productAt d (productId it)) + orZero (quantity it),
        total_revenue = total_revenue (productAt d (productId it)) + orZero (price it) * of_int (orZero (quantity it)),
        product_order_count = product_order_count (productAt d (productId it)) + 1,
        last_ordered_at = Some (epoch_ms now)\<rparr>)\<rparr>"
  have step: "upsertItems flt n now (it # its) d = upsertItems flt (Suc n) now its ?d1"
    using Cons.prems by (simp add: upsertProductMetrics_ok Let_def)
  show ?case
  proof (cases "productId it = pid")
    case True
    then show ?thesis
      unfolding step using Cons.IH[OF Cons.prems, of "Suc n" ?d1]
      by (simp add: itemsFor_def productAt_def)
  next
    case False
    then show ?thesis
      unfolding step using Cons.IH[OF Cons.prems, of "Suc n" ?d1]
      by (simp add: itemsFor_def productAt_def)
  qed
qed

subsection \<open>\<^verbatim>\<open>processEvent\<close> when no query is rejected\<close>

lemma ledgerInsert_simps [simp]:
  "daily_metrics (ledgerInsert ev cid d) = daily_metrics d"
  "hourly_order_counts (ledgerInsert ev cid d) = hourly_order_counts d"
  "product_metrics (ledgerInsert ev cid d) = product_metrics d"
  "dailyAt (ledgerInsert ev cid d) = dailyAt d"
  "hourlyAt (ledgerInsert ev cid d) = hourlyAt d"
  "productAt (ledgerInsert ev cid d) = productAt d"
  by (simp_all add: ledgerInsert_def dailyAt_def hourlyAt_def productAt_def fun_eq_iff)

lemma insertEvent_ledgerInsert:
  "\<not> conflicts d (etype ev) (orderId ev) \<Longrightarrow>
   insertEvent False (etype ev) (orderId ev) (userId ev) cid (data ev) d =
     Inr (Some (Suc (events_log_id_seq d)), ledgerInsert ev cid d)"
  by (simp add: insertEvent_fresh ledgerInsert_def)

lemma type_distinct:
  "ORDER_CONFIRMED \<noteq> ORDER_CREATED" "ORDER_CANCELLED \<noteq> ORDER_CREATED" "ORDER_CANCELLED \<noteq> ORDER_CONFIRMED"
  "ORDER_SHIPPED \<noteq> ORDER_CREATED" "ORDER_SHIPPED \<noteq> ORDER_CONFIRMED" "ORDER_SHIPPED \<noteq> ORDER_CANCELLED"
  "PAYMENT_AUTHORIZED \<noteq> ORDER_CREATED" "PAYMENT_AUTHORIZED \<noteq> ORDER_CONFIRMED"
  "PAYMENT_AUTHORIZED \<noteq> ORDER_CANCELLED" "PAYMENT_AUTHORIZED \<noteq> ORDER_SHIPPED"
  "PAYMENT_FAILED \<noteq> ORDER_CREATED" "PAYMENT_FAILED \<noteq> ORDER_CONFIRMED"
  "PAYMENT_FAILED \<noteq> ORDER_CANCELLED" "PAYMENT_FAILED \<noteq> ORDER_SHIPPED" "PAYMENT_FAILED \<noteq> PAYMENT_AUTHORIZED"
  by (simp_all add: event_type_defs)

lemma at_frame [simp]:
  "dailyAt (d\<lparr>hourly_order_counts := h\<rparr>) = dailyAt d"
  "dailyAt (d\<lparr>product_metrics := p\<rparr>) = dailyAt d"
  "dailyAt (d\<lparr>events_log := l\<rparr>) = dailyAt d"
  "dailyAt (d\<lparr>events_log_id_seq := n\<rparr>) = dailyAt d"
  "hourlyAt (d\<lparr>daily_metrics := dm\<rparr>) = hourlyAt d"
  "hourlyAt (d\<lparr>product_metrics := p\<rparr>) = hourlyAt d"
  "hourlyAt (d\<lparr>events_log := l\<rparr>) = hourlyAt d"
  "hourlyAt (d\<lparr>events_log_id_seq := n\<rparr>) = hourlyAt d"
  "productAt (d\<lparr>daily_metrics := dm\<rparr>) = productAt d"
  "productAt (d\<lparr>hourly_order_counts := h\<rparr>) = productAt d"
  "productAt (d\<lparr>events_log := l\<rparr>) = productAt d"
  "productAt (d\<lparr>events_log_id_seq := n\<rparr>) = productAt d"
  by (simp_all add: dailyAt_def hourlyAt_def productAt_def fun_eq_iff)

lemma no_faults: "(\<forall>k. \<not> flt k) \<Longrightarrow> flt = (\<lambda>_. False)"
  by (simp add: fun_eq_iff)

lemma items_result:
  "fst p = Inr () \<Longrightarrow>
   (case p of (Inl err, d4) \<Rightarrow> (Inl err, d4) | (Inr u, d4) \<Rightarrow> (Inr True, d4)) = (Inr True, snd p)"
  by (cases p) auto


lemma not_recognized:
  "ty \<notin> set EVENT_TYPES \<Longrightarrow>
   ty \<noteq> ORDER_CREATED \<and> ty \<noteq> ORDER_CONFIRMED \<and> ty \<noteq> ORDER_CANCELLED \<and> ty \<noteq> ORDER_SHIPPED \<and>
   ty \<noteq> PAYMENT_AUTHORIZED \<and> ty \<noteq> PAYMENT_FAILED"
  by (auto simp: EVENT_TYPES_def)

lemma processEvent_unrecognized:
  assumes "etype ev \<notin> set EVENT_TYPES" and "\<not> conflicts d (etype ev) (orderId ev)" and "\<not> flt 0"
  shows "processEvent flt now ev cid d =
     (Inr True,
       d\<lparr>events_log := events_log d @
            [\<lparr>row_id = Suc (events_log_id_seq d), event_type = etype ev, order_id = orderId ev,
              user_id = userId ev, correlation_id = cid, row_data = data ev\<rparr>],
         events_log_id_seq := Suc (events_log_id_seq d)\<rparr>)"
  using not_recognized[OF assms(1)] assms(2,3)
  by (simp add: processEvent_def insertEvent_fresh)

lemma processEvent_duplicate:
  assumes "conflicts d (etype ev) (orderId ev)" and "\<not> flt 0"
  shows "processEvent flt now ev cid d = (Inr False, d\<lparr>events_log_id_seq := Suc (events_log_id_seq d)\<rparr>)"
  using assms by (simp add: processEvent_def insertEvent_duplicate)

lemma processEvent_ok:
  assumes "\<not> conflicts d (etype ev) (orderId ev)" and "\<forall>k. \<not> flt k"
  shows "processEvent flt now ev cid d =
     (Inr True, snd (upsertItems flt 3 now (productItems ev)
        (hourlyStep now ev (dailyStep now ev (ledgerInsert ev cid d)))))"
proof -
  have flt: "flt = (\<lambda>_. False)" by (rule no_faults[OF assms(2)])
  have ins: "insertEvent False (etype ev) (orderId ev) (userId ev) cid (data ev) d =
     Inr (Some (Suc (events_log_id_seq d)), ledgerInsert ev cid d)"
    using assms(1) by (rule insertEvent_ledgerInsert)
  consider "etype ev = ORDER_CREATED" | "etype ev = ORDER_CONFIRMED" | "etype ev = ORDER_CANCELLED"
    | "etype ev = ORDER_SHIPPED" | "etype ev = PAYMENT_AUTHORIZED" | "etype ev = PAYMENT_FAILED"
    | "etype ev \<notin> set EVENT_TYPES"
    by (auto simp: EVENT_TYPES_def)
  then show ?thesis
  proof cases
    case 1
    then show ?thesis unfolding processEvent_def Let_def flt ins
      by (simp add: upsertDailyMetrics_ok upsertHourlyMetrics_ok type_distinct type_distinct[symmetric]
          productItems_def hourlyStep_def dailyStep_def dailyIncrements_def hourlyIncrements_def)
  next
    case 2
    then show ?thesis unfolding processEvent_def Let_def flt ins
      by (simp add: upsertDailyMetrics_ok upsertHourlyMetrics_ok type_distinct type_distinct[symmetric] items_result
          upsertItems_ok_fst
          productItems_def hourlyStep_def dailyStep_def dailyIncrements_def hourlyIncrements_def)
  next
    case 3
    then show ?thesis unfolding processEvent_def Let_def flt ins
      by (simp add: upsertDailyMetrics_ok upsertHourlyMetrics_ok type_distinct type_distinct[symmetric]
          productItems_def hourlyStep_def dailyStep_def dailyIncrements_def hourlyIncrements_def)
  next
    case 4
    then show ?thesis unfolding processEvent_def Let_def flt ins
      by (simp add: upsertDailyMetrics_ok upsertHourlyMetrics_ok type_distinct type_distinct[symmetric]
          productItems_def hourlyStep_def dailyStep_def dailyIncrements_def hourlyIncrements_def)
  next
    case 5
    then show ?thesis unfolding processEvent_def Let_def flt ins
      by (simp add: upsertDailyMetrics_ok upsertHourlyMetrics_ok type_distinct type_distinct[symmetric]
          productItems_def hourlyStep_def dailyStep_def dailyIncrements_def hourlyIncrements_def)
  next
    case 6
    then show ?thesis unfolding processEvent_def Let_def flt ins
      by (simp add: upsertDailyMetrics_ok upsertHourlyMetrics_ok type_distinct type_distinct[symmetric]
          productItems_def hourlyStep_def dailyStep_def dailyIncrements_def hourlyIncrements_def)
  next
    case 7
    then show ?thesis unfolding processEvent_def Let_def flt ins
      using not_recognized[of "etype ev"]
      by (simp add: productItems_def hourlyStep_def dailyStep_def dailyIncrements_def hourlyIncrements_def)
  qed
qed

lemma processEvent_ok_fst:
  "\<not> conflicts d (etype ev) (orderId ev) \<Longrightarrow> \<forall>k. \<not> flt k \<Longrightarrow>
   fst (processEvent flt now ev cid d) = Inr True"
  by (simp add: processEvent_ok)

lemma step_frame [simp]:
  "events_log (dailyStep now ev d) = events_log d"
  "events_log (hourlyStep now ev d) = events_log d"
  "hourly_order_counts (dailyStep now ev d) = hourly_order_counts d"
  "product_metrics (dailyStep now ev d) = product_metrics d"
  "daily_metrics (hourlyStep now ev d) = daily_metrics d"
  "product_metrics (hourlyStep now ev d) = product_metrics d"
  "productAt (dailyStep now ev d) = productAt d"
  "productAt (hourlyStep now ev d) = productAt d"
  "hourlyAt (dailyStep now ev d) = hourlyAt d"
  "dailyAt (hourlyStep now ev d) = dailyAt d"
  by (simp_all add: dailyStep_def hourlyStep_def split: option.split prod.split)

lemma step_ledgerInsert [simp]:
  "daily_metrics (dailyStep now ev (ledgerInsert ev' cid d)) = daily_metrics (dailyStep now ev d)"
  "hourly_order_counts (hourlyStep now ev (ledgerInsert ev' cid d)) = hourly_order_counts (hourlyStep now ev d)"
  "hourly_order_counts (hourlyStep now ev (dailyStep now' ev' d)) = hourly_order_counts (hourlyStep now ev d)"
  by (simp_all add: dailyStep_def hourlyStep_def split: option.split prod.split)

lemma processEvent_ok_ledger:
  "\<not> conflicts d (etype ev) (orderId ev) \<Longrightarrow> \<forall>k. \<not> flt k \<Longrightarrow>
   events_log (snd (processEvent flt now ev cid d)) = events_log (ledgerInsert ev cid d)"
  by (simp add: processEvent_ok upsertItems_frame)

lemma processEvent_ok_daily:
  "\<not> conflicts d (etype ev) (orderId ev) \<Longrightarrow> \<forall>k. \<not> flt k \<Longrightarrow>
   daily_metrics (snd (processEvent flt now ev cid d)) = daily_metrics (dailyStep now ev d)"
  by (simp add: processEvent_ok upsertItems_frame)

lemma processEvent_ok_hourly:
  "\<not> conflicts d (etype ev) (orderId ev) \<Longrightarrow> \<forall>k. \<not> flt k \<Longrightarrow>
   hourly_order_counts (snd (processEvent flt now ev cid d)) = hourly_order_counts (hourlyStep now ev d)"
  by (simp add: processEvent_ok upsertItems_frame)

lemma processEvent_ok_product:
  "\<not> conflicts d (etype ev) (orderId ev) \<Longrightarrow> \<forall>k. \<not> flt k \<Longrightarrow>
   product_metrics (snd (processEvent flt now ev cid d)) pid =
     (if itemsFor pid (productItems ev) = [] then product_metrics d pid
      else Some \<lparr>total_quantity_sold = total_quantity_sold (productAt d pid)
                    + (\<Sum>it\<leftarrow>itemsFor pid (productItems ev). orZero (quantity it)),
                 total_revenue = total_revenue (productAt d pid)
                    + (\<Sum>it\<leftarrow>itemsFor pid (productItems ev). orZero (price it) * of_int (orZero (quantity it))),
                 product_order_count = product_order_count (productAt d pid)
                    + int (length (itemsFor pid (productItems ev))),
                 last_ordered_at = Some (epoch_ms now)\<rparr>)"
  by (simp add: processEvent_ok upsertItems_product)

lemma conflicts_ledgerInsert:
  "conflicts (ledgerInsert ev cid d) ty oid = (conflicts d ty oid \<or> (etype ev = ty \<and> orderId ev = oid))"
  by (auto simp: conflicts_def ledgerInsert_def list_ex_iff)

lemma conflicts_events_log: "events_log d = events_log d' \<Longrightarrow> conflicts d = conflicts d'"
  by (simp add: conflicts_def fun_eq_iff)

lemma conflicts_after_processEvent:
  assumes "\<not> conflicts d (etype ev) (orderId ev)" and "\<forall>k. \<not> flt k"
  shows "conflicts (snd (processEvent flt now ev cid d)) ty oid =
           (conflicts d ty oid \<or> (etype ev = ty \<and> orderId ev = oid))"
  using conflicts_events_log[OF processEvent_ok_ledger[OF assms, of now cid]]
  by (simp add: conflicts_ledgerInsert)

lemma aggregates_seq [simp]: "aggregates (d\<lparr>events_log_id_seq := n\<rparr>) = aggregates d"
  by (simp add: aggregates_def)

lemma processEvent_rejected_insert: "flt 0 \<Longrightarrow> processEvent flt now ev cid d = (Inl StorageError, d)"
  by (simp add: processEvent_def insertEvent_def)

lemma processEvent_fresh_not_False:
  assumes "\<not> conflicts d (etype ev) (orderId ev)"
  shows "fst (processEvent flt now ev cid d) \<noteq> Inr False"
proof (cases "flt 0")
  case True
  then show ?thesis by (simp add: processEvent_rejected_insert)
next
  case False
  then have ins: "insertEvent (flt 0) (etype ev) (orderId ev) (userId ev) cid (data ev) d =
     Inr (Some (Suc (events_log_id_seq d)), ledgerInsert ev cid d)"
    using assms by (simp add: insertEvent_ledgerInsert)
  have items: "\<And>d3. fst (case upsertItems flt 3 now (itemsOf (data ev)) d3 of
                          (Inl err, d4) \<Rightarrow> (Inl err, d4)
                        | (Inr u, d4) \<Rightarrow> (Inr True, d4)) \<noteq> Inr False"
    subgoal for d3
      by (cases "upsertItems flt 3 now (itemsOf (data ev)) d3") (auto split: sum.split)
    done
  consider "etype ev = ORDER_CREATED" | "etype ev = ORDER_CONFIRMED" | "etype ev = ORDER_CANCELLED"
    | "etype ev = ORDER_SHIPPED" | "etype ev = PAYMENT_AUTHORIZED" | "etype ev = PAYMENT_FAILED"
    | "etype ev \<notin> set EVENT_TYPES"
    by (auto simp: EVENT_TYPES_def)
  then show ?thesis
  proof cases
    case 1
    then show ?thesis unfolding processEvent_def Let_def ins
      by (simp add: upsertDailyMetrics_def upsertHourlyMetrics_def)
  next
    case 2
    then show ?thesis unfolding processEvent_def Let_def ins
      by (simp add: upsertDailyMetrics_def upsertHourlyMetrics_def type_distinct items)
  next
    case 3
    then show ?thesis unfolding processEvent_def Let_def ins
      by (simp add: upsertDailyMetrics_def type_distinct)
  next
    case 4
    then show ?thesis unfolding processEvent_def Let_def ins
      by (simp add: upsertDailyMetrics_def type_distinct)
  next
    case 5
    then show ?thesis unfolding processEvent_def Let_def ins
      by (simp add: upsertDailyMetrics_def type_distinct)
  next
    case 6
    then show ?thesis unfolding processEvent_def Let_def ins
      by (simp add: upsertDailyMetrics_def type_distinct)
  next
    case 7
    then show ?thesis unfolding processEvent_def Let_def ins
      using not_recognized[of "etype ev"] by simp
  qed
qed






subsection \<open>Unrecognized event types\<close>

text \<open>
  Claim C9. A non-duplicate event whose type is none of the six recognized types is
  recorded in the ledger: the ledger has exactly one row more, the event's key is now
  in it, and the three aggregate tables are unchanged. (The insert itself is assumed
  not to be rejected by the storage engine.)
\<close>

theorem unrecognized_event_is_ledgered_not_aggregated:
  assumes "etype ev \<notin> set EVENT_TYPES" and "\<not> conflicts d (etype ev) (orderId ev)" and "\<not> flt 0"
  shows "length (events_log (snd (processEvent flt now ev cid d))) = Suc (length (events_log d))
       \<and> conflicts (snd (processEvent flt now ev cid d)) (etype ev) (orderId ev)
       \<and> aggregates (snd (processEvent flt now ev cid d)) = aggregates d"
  using assms by (simp add: processEvent_unrecognized aggregates_def conflicts_def)

theorem unrecognized_event_is_ledgered_not_aggregated_witness:
  "length (events_log (snd (processEvent (\<lambda>_. False) epoch scenario_promo None empty_db))) = 1
   \<and> conflicts (snd (processEvent (\<lambda>_. False) epoch scenario_promo None empty_db))
        ''promo.applied'' 7
   \<and> aggregates (snd (processEvent (\<lambda>_. False) epoch scenario_promo None empty_db))
        = (Map.empty, Map.empty, Map.empty)"
  using unrecognized_event_is_ledgered_not_aggregated[of scenario_promo empty_db "\<lambda>_. False" epoch None]
  by (simp add: scenario_promo_def empty_db_def EVENT_TYPES_def event_type_defs conflicts_def
      aggregates_def)

subsection \<open>Order confirmed\<close>



subsection \<open>Idempotency\<close>

text \<open>
  Claim C2. Starting from a state in which the event is not ledgered, the first call of
  \<^verbatim>\<open>processEvent\<close> (no query rejected) returns true and a second call for the same
  event (its insert not rejected; any processing time, correlation id and fault schedule
  for later queries) returns false; the three aggregate tables and the ledger rows after
  the second call are those after the first. As the second result does not depend on
  the fault schedule beyond the insert, the duplicate call issues no further query.
\<close>

theorem process_twice_is_idempotent:
  assumes "\<not> conflicts d (etype ev) (orderId ev)"
    and "\<forall>k. \<not> flt k"
    and "\<not> flt2 0"
  shows "let r1 = processEvent flt now ev cid d;
             r2 = processEvent flt2 now2 ev cid2 (snd r1) in
     fst r1 = Inr True \<and> fst r2 = Inr False
   \<and> aggregates (snd r2) = aggregates (snd r1)
   \<and> events_log (snd r2) = events_log (snd r1)"
proof -
  have dup: "conflicts (snd (processEvent flt now ev cid d)) (etype ev) (orderId ev)"
    using assms(1,2) by (simp add: conflicts_after_processEvent)
  show ?thesis
    unfolding Let_def
    using assms dup
    by (simp add: processEvent_ok_fst processEvent_duplicate)
qed

theorem process_twice_is_idempotent_witness:
  "let r1 = processEvent (\<lambda>_. False) epoch scenario_created (Some ''test-corr'') empty_db;
       r2 = processEvent (\<lambda>_. False) epoch scenario_created (Some ''test-corr'') (snd r1) in
     fst r1 = Inr True \<and> fst r2 = Inr False
   \<and> aggregates (snd r2) = aggregates (snd r1)
   \<and> events_log (snd r2) = events_log (snd r1)"
  using process_twice_is_idempotent[of empty_db scenario_created "\<lambda>_. False" "\<lambda>_. False" epoch
      "Some ''test-corr''" epoch "Some ''test-corr''"]
  by (simp add: conflicts_def empty_db_def)

subsection \<open>What the returned boolean tells\<close>

text \<open>
  Claim C10. \<^verbatim>\<open>processEvent\<close> returns false exactly when its insert was not rejected
  and the event's key was already in the ledger. A non-duplicate event of an
  unrecognized type returns true although no aggregate table changes, so true does not
  tell that an aggregate changed.
\<close>

theorem applied_false_means_duplicate:
  "(fst (processEvent flt now ev cid d) = Inr False
      \<longleftrightarrow> \<not> flt 0 \<and> conflicts d (etype ev) (orderId ev))
   \<and> (etype ev \<notin> set EVENT_TYPES \<and> \<not> conflicts d (etype ev) (orderId ev) \<and> \<not> flt 0
      \<longrightarrow> fst (processEvent flt now ev cid d) = Inr True
        \<and> aggregates (snd (processEvent flt now ev cid d)) = aggregates d)"
proof -
  have a: "fst (processEvent flt now ev cid d) = Inr False
      \<longleftrightarrow> \<not> flt 0 \<and> conflicts d (etype ev) (orderId ev)"
  proof (cases "flt 0")
    case True
    then show ?thesis by (simp add: processEvent_rejected_insert)
  next
    case False
    then show ?thesis
      using processEvent_fresh_not_False[of d ev flt now cid]
      by (cases "conflicts d (etype ev) (orderId ev)") (simp_all add: processEvent_duplicate)
  qed
  have b: "etype ev \<notin> set EVENT_TYPES \<and> \<not> conflicts d (etype ev) (orderId ev) \<and> \<not> flt 0
      \<longrightarrow> fst (processEvent flt now ev cid d) = Inr True
        \<and> aggregates (snd (processEvent flt now ev cid d)) = aggregates d"
    by (simp add: processEvent_unrecognized aggregates_def)
  from a b show ?thesis by blast
qed

theorem applied_false_means_duplicate_witness:
  "fst (processEvent (\<lambda>_. False) epoch scenario_promo None empty_db) = Inr True
   \<and> aggregates (snd (processEvent (\<lambda>_. False) epoch scenario_promo None empty_db)) = aggregates empty_db
   \<and> fst (processEvent (\<lambda>_. False) epoch scenario_promo None
        (ledgerInsert scenario_promo None empty_db)) = Inr False"
  using applied_false_means_duplicate[of "\<lambda>_. False" epoch scenario_promo None empty_db]
    applied_false_means_duplicate[of "\<lambda>_. False" epoch scenario_promo None
      "ledgerInsert scenario_promo None empty_db"]
  by (simp add: scenario_promo_def empty_db_def EVENT_TYPES_def event_type_defs conflicts_def
      ledgerInsert_def)

subsection \<open>A rejected query after the ledger insert\<close>

text \<open>
  Claim C1, evaluated on the code. The order-created event of the test suite is
  processed on the empty database and the second query (the daily upsert) is rejected.
  The rejection propagates, but the ledger row written by the first query stays: the
  state differs from the state before the call, the event's key is in the ledger while
  no aggregate holds its increments, and processing the same event again returns false
  and still leaves the aggregates empty. (The repository also keeps a variant of
  \<^verbatim>\<open>processEvent\<close> that wraps the same steps in \<^verbatim>\<open>BEGIN\<close>, \<^verbatim>\<open>COMMIT\<close> and
  \<^verbatim>\<open>ROLLBACK\<close> on a dedicated client; \<^verbatim>\<open>src/processor.js\<close>, modelled here, sends
  every statement through the pool on its own.)
\<close>

theorem failure_after_ledger_insert_keeps_the_row:
  "let r1 = processEvent (\<lambda>n. n = 1) epoch scenario_created (Some ''test-corr'') empty_db;
       r2 = processEvent (\<lambda>_. False) epoch scenario_created (Some ''test-corr'') (snd r1) in
     fst r1 = Inl StorageError
   \<and> snd r1 \<noteq> empty_db
   \<and> conflicts (snd r1) ''order.created'' 1
   \<and> aggregates (snd r1) = aggregates empty_db
   \<and> fst r2 = Inr False
   \<and> aggregates (snd r2) = aggregates empty_db"
  by (simp add: Let_def processEvent_def insertEvent_def upsertDailyMetrics_def
      scenario_created_def empty_db_def conflicts_def event_type_defs aggregates_def)

subsection \<open>The three upserts\<close>



subsection \<open>Missing amounts, prices and quantities\<close>



subsection \<open>The correlation identifier handed to \<^verbatim>\<open>processEvent\<close>\<close>

text \<open>
  Claim C6 as stated fails. A message without headers whose payload carries the
  correlation id \<^verbatim>\<open>abc\<close> reaches the handler with \<^verbatim>\<open>null\<close>: the payload's id is not
  handed over; and with neither a header nor a payload id the handler is again called
  with \<^verbatim>\<open>null\<close>: nothing is synthesized.
\<close>

theorem payload_correlation_id_is_not_passed:
  "handlerCall (\<lambda>raw. Some \<lparr>payload_correlationId = Some ''abc'', body = ()\<rparr>)
       (\<lambda>r. Some scenario_created) \<lparr>headers = None, msg_value = Some ''{...}''\<rparr>
     = Some (scenario_created, None)
   \<and> handlerCall (\<lambda>raw. Some \<lparr>payload_correlationId = None, body = ()\<rparr>)
       (\<lambda>r. Some scenario_created) \<lparr>headers = Some Map.empty, msg_value = Some ''{...}''\<rparr>
     = Some (scenario_created, None)"
  by (simp add: handlerCall_def headerCorrelationId_def truthy_def)

text \<open>
  Claim C6, amended. Whenever the handler is called, its correlation id is the one
  taken from the message headers alone: \<^verbatim>\<open>null\<close> without a header object or without a
  truthy \<^verbatim>\<open>x-correlation-id\<close> or \<^verbatim>\<open>correlationId\<close> header; the \<^verbatim>\<open>x-correlation-id\<close>
  header when it is truthy (a buffer as its string), else the \<^verbatim>\<open>correlationId\<close> header.
  A non-empty header id also replaces the payload's \<^verbatim>\<open>correlationId\<close> before the event
  is validated, so a header id takes precedence over a payload id.
\<close>

theorem handler_gets_header_correlation_id:
  assumes "handlerCall parse validateEvent message = Some (ev, cid)"
  shows "cid = headerCorrelationId message
   \<and> (headers message = None \<longrightarrow> cid = None)
   \<and> (\<forall>hs. headers message = Some hs \<and> \<not> truthy (hs ''x-correlation-id'')
          \<and> \<not> truthy (hs ''correlationId'') \<longrightarrow> cid = None)
   \<and> (\<forall>hs s. headers message = Some hs \<and> hs ''x-correlation-id'' = Some (Str s) \<and> s \<noteq> []
          \<longrightarrow> cid = Some s)
   \<and> (\<forall>hs b. headers message = Some hs \<and> hs ''x-correlation-id'' = Some (Buf b)
          \<longrightarrow> cid = Some b)
   \<and> (\<forall>hs v. headers message = Some hs \<and> \<not> truthy (hs ''x-correlation-id'')
          \<and> truthy (hs ''correlationId'') \<and> hs ''correlationId'' = Some v
          \<longrightarrow> cid = Some (case v of Buf b \<Rightarrow> b | Str s \<Rightarrow> s))
   \<and> (\<exists>rawValue raw. msg_value message = Some rawValue \<and> parse rawValue = Some raw
          \<and> validateEvent (if cid \<noteq> None \<and> cid \<noteq> Some []
                             then raw\<lparr>payload_correlationId := cid\<rparr> else raw) = Some ev)"
proof -
  have c: "cid = headerCorrelationId message"
    using assms
    by (auto simp: handlerCall_def Let_def split: option.splits if_splits)
  have v: "\<exists>rawValue raw. msg_value message = Some rawValue \<and> parse rawValue = Some raw
          \<and> validateEvent (if cid \<noteq> None \<and> cid \<noteq> Some []
                             then raw\<lparr>payload_correlationId := cid\<rparr> else raw) = Some ev"
    using assms unfolding c
    by (auto simp: handlerCall_def Let_def split: option.splits if_splits)
  have h1: "headers message = None \<longrightarrow> cid = None"
    unfolding c by (simp add: headerCorrelationId_def)
  have h2: "\<forall>hs. headers message = Some hs \<and> \<not> truthy (hs ''x-correlation-id'')
          \<and> \<not> truthy (hs ''correlationId'') \<longrightarrow> cid = None"
    unfolding c by (simp add: headerCorrelationId_def)
  have h3: "\<forall>hs s. headers message = Some hs \<and> hs ''x-correlation-id'' = Some (Str s) \<and> s \<noteq> []
          \<longrightarrow> cid = Some s"
    unfolding c by (simp add: headerCorrelationId_def truthy_def)
  have h4: "\<forall>hs b. headers message = Some hs \<and> hs ''x-correlation-id'' = Some (Buf b)
          \<longrightarrow> cid = Some b"
    unfolding c by (simp add: headerCorrelationId_def truthy_def)
  have h5: "\<forall>hs v. headers message = Some hs \<and> \<not> truthy (hs ''x-correlation-id'')
          \<and> truthy (hs ''correlationId'') \<and> hs ''correlationId'' = Some v
          \<longrightarrow> cid = Some (case v of Buf b \<Rightarrow> b | Str s \<Rightarrow> s)"
    unfolding c by (auto simp: headerCorrelationId_def split: header_value.splits)
  show ?thesis
    by (insert c h1 h2 h3 h4 h5 v, intro conjI; assumption)
qed

theorem handler_gets_header_correlation_id_witness:
  "handlerCall (\<lambda>raw. Some \<lparr>payload_correlationId = Some ''abc'', body = ()\<rparr>)
       (\<lambda>r. if payload_correlationId r = Some ''hdr'' then Some scenario_created else None)
       \<lparr>headers = Some [''x-correlation-id'' \<mapsto> Buf ''hdr''], msg_value = Some ''{...}''\<rparr>
     = Some (scenario_created, Some ''hdr'')
   \<and> headerCorrelationId
       \<lparr>headers = Some [''x-correlation-id'' \<mapsto> Buf ''hdr''], msg_value = Some ''{...}''\<rparr>
     = Some ''hdr''"
proof -
  have call: "handlerCall (\<lambda>raw. Some \<lparr>payload_correlationId = Some ''abc'', body = ()\<rparr>)
       (\<lambda>r. if payload_correlationId r = Some ''hdr'' then Some scenario_created else None)
       \<lparr>headers = Some [''x-correlation-id'' \<mapsto> Buf ''hdr''], msg_value = Some ''{...}''\<rparr>
     = Some (scenario_created, Some ''hdr'')"
    by (simp add: handlerCall_def headerCorrelationId_def truthy_def)
  from handler_gets_header_correlation_id[OF call] call show ?thesis by simp
qed

subsection \<open>Processing two events in either order\<close>

lemma dailyStep_cong:
  "daily_metrics d = daily_metrics d' \<Longrightarrow>
   daily_metrics (dailyStep now ev d) = daily_metrics (dailyStep now ev d')"
  by (simp add: dailyStep_def dailyAt_def split: option.split)

lemma hourlyStep_cong:
  "hourly_order_counts d = hourly_order_counts d' \<Longrightarrow>
   hourly_order_counts (hourlyStep now ev d) = hourly_order_counts (hourlyStep now ev d')"
  by (simp add: hourlyStep_def hourlyAt_def split: option.split prod.split)

lemma daily_merge_commute:
  "daily_merge (daily_merge r x) y = daily_merge (daily_merge r y) x"
  by (simp add: daily_merge_def)

lemma dailyStep_commute:
  assumes "isoDate a1 = isoDate b1" and "isoDate a2 = isoDate b2"
  shows "daily_metrics (dailyStep a2 e2 (dailyStep a1 e1 d)) =
         daily_metrics (dailyStep b1 e1 (dailyStep b2 e2 d))"
proof (cases "dailyIncrements e1")
  case None
  then show ?thesis using assms by (simp add: dailyStep_def dailyAt_def split: option.split)
next
  case (Some i1)
  show ?thesis
  proof (cases "dailyIncrements e2")
    case None
    then show ?thesis using assms Some by (simp add: dailyStep_def dailyAt_def split: option.split)
  next
    case (Some i2)
    show ?thesis
    proof (cases "isoDate b1 = isoDate b2")
      case True
      then show ?thesis
        using assms \<open>dailyIncrements e1 = Some i1\<close> Some
        by (simp add: dailyStep_def dailyAt_def daily_merge_commute)
    next
      case False
      then show ?thesis
        using assms \<open>dailyIncrements e1 = Some i1\<close> Some
        by (auto simp: dailyStep_def dailyAt_def fun_eq_iff)
    qed
  qed
qed

lemma hourlyStep_commute:
  assumes "hourOf a1 = hourOf b1" and "hourOf a2 = hourOf b2"
  shows "hourly_order_counts (hourlyStep a2 e2 (hourlyStep a1 e1 d)) =
         hourly_order_counts (hourlyStep b1 e1 (hourlyStep b2 e2 d))"
proof (cases "hourlyIncrements e1")
  case None
  then show ?thesis using assms by (simp add: hourlyStep_def hourlyAt_def split: option.split prod.split)
next
  case (Some i1)
  show ?thesis
  proof (cases "hourlyIncrements e2")
    case None
    then show ?thesis using assms Some
      by (simp add: hourlyStep_def hourlyAt_def split: option.split prod.split)
  next
    case (Some i2)
    show ?thesis
    proof (cases "hourOf b1 = hourOf b2")
      case True
      then show ?thesis
        using assms \<open>hourlyIncrements e1 = Some i1\<close> Some
        by (cases i1; cases i2) (simp add: hourlyStep_def hourlyAt_def algebra_simps)
    next
      case False
      then show ?thesis
        using assms \<open>hourlyIncrements e1 = Some i1\<close> Some
        by (cases i1; cases i2) (auto simp: hourlyStep_def hourlyAt_def fun_eq_iff)
    qed
  qed
qed

lemma productAt_Some: "product_metrics d pid = Some r \<Longrightarrow> productAt d pid = r"
  by (simp add: productAt_def)

lemma productAt_same: "product_metrics d pid = product_metrics d' pid \<Longrightarrow> productAt d pid = productAt d' pid"
  by (simp add: productAt_def)

lemma two_events_product:
  assumes f1: "\<not> conflicts d (etype e1) (orderId e1)"
    and f2: "\<not> conflicts (snd (processEvent flt a1 e1 c1 d)) (etype e2) (orderId e2)"
    and nf: "\<forall>k. \<not> flt k"
  shows "product_metrics (snd (processEvent flt a2 e2 c2 (snd (processEvent flt a1 e1 c1 d)))) pid =
     (if itemsFor pid (productItems e1) = [] \<and> itemsFor pid (productItems e2) = []
      then product_metrics d pid
      else Some \<lparr>total_quantity_sold = total_quantity_sold (productAt d pid)
                    + (\<Sum>it\<leftarrow>itemsFor pid (productItems e1). orZero (quantity it))
                    + (\<Sum>it\<leftarrow>itemsFor pid (productItems e2). orZero (quantity it)),
                 total_revenue = total_revenue (productAt d pid)
                    + (\<Sum>it\<leftarrow>itemsFor pid (productItems e1). orZero (price it) * of_int (orZero (quantity it)))
                    + (\<Sum>it\<leftarrow>itemsFor pid (productItems e2). orZero (price it) * of_int (orZero (quantity it))),
                 product_order_count = product_order_count (productAt d pid)
                    + int (length (itemsFor pid (productItems e1)))
                    + int (length (itemsFor pid (productItems e2))),
                 last_ordered_at = (if itemsFor pid (productItems e2) = []
                    then Some (epoch_ms a1) else Some (epoch_ms a2))\<rparr>)"
proof -
  note p1 = processEvent_ok_product[OF f1 nf, of a1 c1 pid]
  note p2 = processEvent_ok_product[OF f2 nf, of a2 c2 pid]
  show ?thesis
  proof (cases "itemsFor pid (productItems e1) = []")
    case True
    then have "product_metrics (snd (processEvent flt a1 e1 c1 d)) pid = product_metrics d pid"
      using p1 by simp
    then have "productAt (snd (processEvent flt a1 e1 c1 d)) pid = productAt d pid"
      by (rule productAt_same)
    then show ?thesis using True p1 p2 by simp
  next
    case False
    then show ?thesis using p1 p2 by (simp add: productAt_Some)
  qed
qed

text \<open>
  Claim C4 as stated fails. The order-confirmed and the order-created event of the test
  suite are processed on the empty database, the first call at instant 0 and the second
  one millisecond later. With the order-confirmed event first, product 1 ends with
  \<^verbatim>\<open>last_ordered_at\<close> = 0; with the order-created event first it ends with 1.
\<close>

theorem processing_order_changes_last_ordered_at:
  "aggregates (snd (processEvent (\<lambda>_. False) one_ms_later scenario_created None
                  (snd (processEvent (\<lambda>_. False) epoch scenario_confirmed None empty_db))))
   \<noteq> aggregates (snd (processEvent (\<lambda>_. False) one_ms_later scenario_confirmed None
                  (snd (processEvent (\<lambda>_. False) epoch scenario_created None empty_db))))"
proof
  let ?nf = "\<lambda>_::nat. False"
  let ?d1 = "snd (processEvent ?nf epoch scenario_confirmed None empty_db)"
  let ?d2 = "snd (processEvent ?nf epoch scenario_created None empty_db)"
  let ?dA = "snd (processEvent ?nf one_ms_later scenario_created None ?d1)"
  let ?dB = "snd (processEvent ?nf one_ms_later scenario_confirmed None ?d2)"
  assume "aggregates ?dA = aggregates ?dB"
  then have eq: "product_metrics ?dA 1 = product_metrics ?dB 1"
    by (simp add: aggregates_def)
  have fresh1: "\<not> conflicts empty_db (etype scenario_confirmed) (orderId scenario_confirmed)"
    and fresh2: "\<not> conflicts empty_db (etype scenario_created) (orderId scenario_created)"
    by (simp_all add: conflicts_def empty_db_def)
  have nf: "\<forall>k. \<not> ?nf k" by simp
  have f2: "\<not> conflicts ?d1 (etype scenario_created) (orderId scenario_created)"
    using conflicts_after_processEvent[OF fresh1 nf, of epoch None "etype scenario_created"
        "orderId scenario_created"] fresh2
    by (simp add: scenario_created_def scenario_confirmed_def)
  have f1: "\<not> conflicts ?d2 (etype scenario_confirmed) (orderId scenario_confirmed)"
    using conflicts_after_processEvent[OF fresh2 nf, of epoch None "etype scenario_confirmed"
        "orderId scenario_confirmed"] fresh1
    by (simp add: scenario_created_def scenario_confirmed_def)
  have items: "itemsFor 1 (productItems scenario_confirmed) \<noteq> []"
    "itemsFor 1 (productItems scenario_created) = []"
    by (simp_all add: itemsFor_def productItems_def itemsOf_def scenario_confirmed_def
        scenario_created_def event_type_defs)
  have A: "map_option last_ordered_at (product_metrics ?dA 1) = Some (Some 0)"
    unfolding two_events_product[OF fresh1 f2 nf] using items by (simp add: epoch_def)
  have B: "map_option last_ordered_at (product_metrics ?dB 1) = Some (Some 1)"
    unfolding two_events_product[OF fresh2 f1 nf] using items by (simp add: one_ms_later_def)
  from eq A B show False by simp
qed

text \<open>
  Claim C4, amended. Two events with different keys, neither ledgered, are processed
  with no query rejected, in the order \<open>e1\<close> (at \<open>a1\<close>), \<open>e2\<close> (at \<open>a2\<close>) and in
  the order \<open>e2\<close> (at \<open>b2\<close>), \<open>e1\<close> (at \<open>b1\<close>). If each event falls into the same
  day and the same hour bucket in both orders, both orders give the same daily table,
  the same hourly table and the same product rows up to \<^verbatim>\<open>last_ordered_at\<close>; if all
  four instants coincide, the aggregate states are equal.
\<close>

theorem processing_order_commutes_up_to_time:
  assumes "\<not> conflicts d (etype e1) (orderId e1)"
    and "\<not> conflicts d (etype e2) (orderId e2)"
    and "(etype e1, orderId e1) \<noteq> (etype e2, orderId e2)"
    and "\<forall>k. \<not> flt k"
    and "isoDate a1 = isoDate b1" and "hourOf a1 = hourOf b1"
    and "isoDate a2 = isoDate b2" and "hourOf a2 = hourOf b2"
  shows "let dA = snd (processEvent flt a2 e2 c2 (snd (processEvent flt a1 e1 c1 d)));
             dB = snd (processEvent flt b1 e1 c1 (snd (processEvent flt b2 e2 c2 d))) in
     daily_metrics dA = daily_metrics dB
   \<and> hourly_order_counts dA = hourly_order_counts dB
   \<and> (\<forall>pid. withoutLastOrdered (product_metrics dA pid) = withoutLastOrdered (product_metrics dB pid))
   \<and> (epoch_ms a1 = epoch_ms a2 \<and> epoch_ms b1 = epoch_ms a1 \<and> epoch_ms b2 = epoch_ms a1
        \<longrightarrow> aggregates dA = aggregates dB)"
proof -
  let ?d1 = "snd (processEvent flt a1 e1 c1 d)"
  let ?d2 = "snd (processEvent flt b2 e2 c2 d)"
  let ?dA = "snd (processEvent flt a2 e2 c2 ?d1)"
  let ?dB = "snd (processEvent flt b1 e1 c1 ?d2)"
  have f2: "\<not> conflicts ?d1 (etype e2) (orderId e2)"
    using assms(1-4) by (auto simp: conflicts_after_processEvent)
  have f1: "\<not> conflicts ?d2 (etype e1) (orderId e1)"
    using assms(1-4) by (auto simp: conflicts_after_processEvent)
  have daily: "daily_metrics ?dA = daily_metrics ?dB"
  proof -
    have "daily_metrics ?dA = daily_metrics (dailyStep a2 e2 (dailyStep a1 e1 d))"
      using processEvent_ok_daily[OF f2 assms(4), of a2 c2]
        dailyStep_cong[OF processEvent_ok_daily[OF assms(1,4), of a1 c1], of a2 e2]
      by simp
    moreover have "daily_metrics ?dB = daily_metrics (dailyStep b1 e1 (dailyStep b2 e2 d))"
      using processEvent_ok_daily[OF f1 assms(4), of b1 c1]
        dailyStep_cong[OF processEvent_ok_daily[OF assms(2,4), of b2 c2], of b1 e1]
      by simp
    ultimately show ?thesis
      using dailyStep_commute[OF assms(5,7), of e2 e1 d] by simp
  qed
  have hourly: "hourly_order_counts ?dA = hourly_order_counts ?dB"
  proof -
    have "hourly_order_counts ?dA = hourly_order_counts (hourlyStep a2 e2 (hourlyStep a1 e1 d))"
      using processEvent_ok_hourly[OF f2 assms(4), of a2 c2]
        hourlyStep_cong[OF processEvent_ok_hourly[OF assms(1,4), of a1 c1], of a2 e2]
      by simp
    moreover have "hourly_order_counts ?dB = hourly_order_counts (hourlyStep b1 e1 (hourlyStep b2 e2 d))"
      using processEvent_ok_hourly[OF f1 assms(4), of b1 c1]
        hourlyStep_cong[OF processEvent_ok_hourly[OF assms(2,4), of b2 c2], of b1 e1]
      by simp
    ultimately show ?thesis
      using hourlyStep_commute[OF assms(6,8), of e2 e1 d] by simp
  qed
  note pA = two_events_product[OF assms(1) f2 assms(4), of a2 c2]
  note pB = two_events_product[OF assms(2) f1 assms(4), of b1 c1]
  have prod: "\<forall>pid. withoutLastOrdered (product_metrics ?dA pid) = withoutLastOrdered (product_metrics ?dB pid)"
    by (simp add: pA pB withoutLastOrdered_def)
  have full: "epoch_ms a1 = epoch_ms a2 \<and> epoch_ms b1 = epoch_ms a1 \<and> epoch_ms b2 = epoch_ms a1
        \<longrightarrow> aggregates ?dA = aggregates ?dB"
  proof
    assume t: "epoch_ms a1 = epoch_ms a2 \<and> epoch_ms b1 = epoch_ms a1 \<and> epoch_ms b2 = epoch_ms a1"
    have "product_metrics ?dA pid = product_metrics ?dB pid" for pid
      using t by (simp add: pA pB)
    then have "product_metrics ?dA = product_metrics ?dB" by (rule ext)
    with daily hourly show "aggregates ?dA = aggregates ?dB"
      by (simp add: aggregates_def)
  qed
  show ?thesis
    unfolding Let_def
    by (insert daily hourly prod full, intro conjI; assumption)
qed

theorem processing_order_commutes_up_to_time_witness:
  "let dA = snd (processEvent (\<lambda>_. False) one_ms_later scenario_created None
                  (snd (processEvent (\<lambda>_. False) epoch scenario_confirmed None empty_db)));
       dB = snd (processEvent (\<lambda>_. False) one_ms_later scenario_confirmed None
                  (snd (processEvent (\<lambda>_. False) epoch scenario_created None empty_db))) in
     daily_metrics dA = daily_metrics dB
   \<and> hourly_order_counts dA = hourly_order_counts dB
   \<and> (\<forall>pid. withoutLastOrdered (product_metrics dA pid) = withoutLastOrdered (product_metrics dB pid))"
  using processing_order_commutes_up_to_time[of empty_db scenario_confirmed scenario_created
      "\<lambda>_. False" epoch one_ms_later one_ms_later epoch None None]
  by (simp add: Let_def conflicts_def empty_db_def scenario_confirmed_def scenario_created_def
      isoDate_def hourOf_def epoch_def one_ms_later_def)

end
